theory Spec2Isabelle
  imports Complex_Main
begin

section \<open>Data model (convex/schema.ts)\<close>

text \<open>
  Document ids are opaque values handed out by the store on insert; they are modelled as
  natural numbers drawn from a counter kept in the database state. A \<open>v.number()\<close> field
  and the reading of \<open>Date.now()\<close> are modelled as real numbers (the finite values of a
  JavaScript number). The system field \<open>_creationTime\<close> is read nowhere in the modules
  modelled here and is left out; tables are kept in insertion order instead.
\<close>

type_synonym id = nat
type_synonym number = real

datatype role = Candidate | Interviewer

record user =
  user_id :: id
  clerkId :: string
  name :: string
  email :: string
  image :: "string option"
  role :: role

record interview =
  interview_id :: id
  title :: string
  description :: "string option"
  startTime :: number
  endTime :: "number option"
  status :: string
  streamCallId :: string
  candidateId :: string
  interviewerIds :: string

record comment =
  comment_id :: id
  content :: string
  rating :: number
  interviewerId :: string
  interviewId :: id

record db =
  users :: "user list"
  interviews :: "interview list"
  comments :: "comment list"
  next_id :: id

definition empty_db :: db where
  "empty_db = \<lparr>users = [], interviews = [], comments = [], next_id = 0\<rparr>"

text \<open>
  What a handler can throw: \<open>Error msg\<close> is a \<open>throw new Error(msg)\<close> of the source;
  \<open>TypeError\<close> is the runtime's fault on reading a property of \<open>undefined\<close>;
  \<open>SyntaxError\<close> is \<open>request.json()\<close> rejecting a body that is not JSON;
  \<open>DocumentNotFound\<close> is \<open>ctx.db.patch\<close> on an id that has no document;
  \<open>ArgumentValidationError\<close> is a mutation called with an argument its validator rejects.
\<close>

datatype error =
  Error string | TypeError | SyntaxError | DocumentNotFound | ArgumentValidationError

text \<open>
  The result of \<open>ctx.auth.getUserIdentity()\<close>: \<open>None\<close> when the call carries no valid
  session, otherwise the verified identity, of which the handlers read \<open>subject\<close>.
\<close>

record identity =
  subject :: string

section \<open>Users (convex/users.ts)\<close>

text \<open>
  \<open>syncUser\<close>: look the user up through the index on \<open>clerkId\<close> (\<open>.first()\<close> is the oldest
  matching document); return its id if there is one, otherwise insert the arguments with
  role \<open>candidate\<close> and return the new id. The handler has no throw of its own.
\<close>

definition syncUser ::
    "string \<Rightarrow> string \<Rightarrow> string \<Rightarrow> string option \<Rightarrow> db \<Rightarrow> (error + id) \<times> db" where
  "syncUser cid em nm img d =
     (case find (\<lambda>u. clerkId u = cid) (users d) of
        Some existingUser \<Rightarrow> (Inr (user_id existingUser), d)
      | None \<Rightarrow>
          (let newUserId = next_id d in
           (Inr newUserId,
            d\<lparr>users := users d @
                 [\<lparr>user_id = newUserId, clerkId = cid, name = nm, email = em,
                   image = img, role = Candidate\<rparr>],
              next_id := Suc newUserId\<rparr>)))"

definition getUsers :: "identity option \<Rightarrow> db \<Rightarrow> (error + user list) \<times> db" where
  "getUsers ident d =
     (case ident of
        None \<Rightarrow> (Inl (Error ''Unauthorized, user is not authenticated''), d)
      | Some _ \<Rightarrow> (Inr (users d), d))"

definition getUserByClerkId :: "string \<Rightarrow> db \<Rightarrow> user option" where
  "getUserByClerkId cid d = find (\<lambda>u. clerkId u = cid) (users d)"

section \<open>Interviews (the interviews module)\<close>

definition getAllInterviews :: "identity option \<Rightarrow> db \<Rightarrow> (error + interview list) \<times> db" where
  "getAllInterviews ident d =
     (case ident of
        None \<Rightarrow> (Inl (Error ''Unauthorized''), d)
      | Some _ \<Rightarrow> (Inr (interviews d), d))"

text \<open>The index range \<open>candidateId = identity.subject\<close>, collected in creation order.\<close>

definition getMyInterviews :: "identity option \<Rightarrow> db \<Rightarrow> (error + interview list) \<times> db" where
  "getMyInterviews ident d =
     (case ident of
        None \<Rightarrow> (Inl (Error ''Unauthorized''), d)
      | Some i \<Rightarrow> (Inr (filter (\<lambda>x. candidateId x = subject i) (interviews d)), d))"

definition getInterviewByStreamCallId :: "string \<Rightarrow> db \<Rightarrow> interview option" where
  "getInterviewByStreamCallId sc d = find (\<lambda>x. streamCallId x = sc) (interviews d)"

text \<open>\<open>Array.prototype.join\<close> on an array of strings.\<close>

fun join :: "string \<Rightarrow> string list \<Rightarrow> string" where
  "join sep [] = []"
| "join sep [x] = x"
| "join sep (x # y # ys) = x @ sep @ join sep (y # ys)"

text \<open>
  The arguments of \<open>createInterview\<close>, as its validator declares them. There is no
  \<open>endTime\<close> argument, and a call carrying a field the validator does not declare is
  rejected before the handler runs.
\<close>

record createInterview_args =
  arg_title :: string
  arg_description :: "string option"
  arg_startTime :: number
  arg_status :: string
  arg_streamCallId :: string
  arg_candidateId :: string
  arg_interviewerIds :: "string list"

definition createInterview ::
    "identity option \<Rightarrow> createInterview_args \<Rightarrow> db \<Rightarrow> (error + id) \<times> db" where
  "createInterview ident args d =
     (case ident of
        None \<Rightarrow> (Inl (Error ''Unauthorized''), d)
      | Some _ \<Rightarrow>
          (let newId = next_id d in
           (Inr newId,
            d\<lparr>interviews := interviews d @
                 [\<lparr>interview_id = newId, title = arg_title args,
                   description = arg_description args, startTime = arg_startTime args,
                   endTime = None, status = arg_status args,
                   streamCallId = arg_streamCallId args,
                   candidateId = arg_candidateId args,
                   interviewerIds = join '','' (arg_interviewerIds args)\<rparr>],
              next_id := Suc newId\<rparr>)))"

text \<open>
  The object handed to \<open>ctx.db.patch\<close> by \<open>updateInterview\<close>: \<open>status\<close> always, and
  \<open>endTime: Date.now()\<close> spread in when the new status is \<open>"completed"\<close>. The reading of
  the clock is the parameter \<open>now\<close>.
\<close>

definition patch_status :: "string \<Rightarrow> number \<Rightarrow> interview \<Rightarrow> interview" where
  "patch_status st now x =
     (if st = ''completed'' then x\<lparr>status := st, endTime := Some now\<rparr>
      else x\<lparr>status := st\<rparr>)"

definition updateInterview ::
    "identity option \<Rightarrow> id \<Rightarrow> string \<Rightarrow> number \<Rightarrow> db \<Rightarrow> (error + unit) \<times> db" where
  "updateInterview ident i st now d =
     (case ident of
        None \<Rightarrow> (Inl (Error ''Unauthorized''), d)
      | Some _ \<Rightarrow>
          (if \<exists>x \<in> set (interviews d). interview_id x = i
           then (Inr (),
                 d\<lparr>interviews :=
                     map (\<lambda>x. if interview_id x = i then patch_status st now x else x)
                       (interviews d)\<rparr>)
           else (Inl DocumentNotFound, d)))"

section \<open>Comments (convex/comments.ts)\<close>

definition addComment ::
    "identity option \<Rightarrow> id \<Rightarrow> string \<Rightarrow> number \<Rightarrow> db \<Rightarrow> (error + id) \<times> db" where
  "addComment ident iid txt r d =
     (case ident of
        None \<Rightarrow> (Inl (Error ''Unauthorized''), d)
      | Some i \<Rightarrow>
          (let newId = next_id d in
           (Inr newId,
            d\<lparr>comments := comments d @
                 [\<lparr>comment_id = newId, content = txt, rating = r,
                   interviewerId = subject i, interviewId = iid\<rparr>],
              next_id := Suc newId\<rparr>)))"

definition getComments :: "id \<Rightarrow> db \<Rightarrow> comment list" where
  "getComments iid d = filter (\<lambda>c. interviewId c = iid) (comments d)"

section \<open>Webhook ingress (convex/http.ts)\<close>

text \<open>
  The payload of a \<open>user.created\<close> event, with the fields the handler destructures
  (\<open>data_id\<close> is the field \<open>id\<close>). For \<open>first_name\<close> and \<open>last_name\<close> a \<open>None\<close> stands for
  \<open>null\<close> or a missing field, which \<open>||\<close> treats alike. \<open>image_url\<close> is passed on as it
  is, and the validator of \<open>syncUser\<close> tells the three cases apart: a missing field
  (\<open>Undefined\<close>), \<open>null\<close> (\<open>Null\<close>) and a string (\<open>Str\<close>).
\<close>

datatype js_string = Undefined | Null | Str string

record email_address_json =
  email_address :: string

record user_json =
  data_id :: string
  email_addresses :: "email_address_json list"
  first_name :: "string option"
  last_name :: "string option"
  image_url :: js_string

record webhook_event =
  evt_type :: string
  evt_data :: user_json

record svix_headers =
  svix_id :: string
  svix_timestamp :: string
  svix_signature :: string

text \<open>
  An inbound request: \<open>headers\<close> is \<open>request.headers.get\<close>, and \<open>json\<close> is what
  \<open>await request.json()\<close> gives, \<open>None\<close> when the body is not JSON and the call throws.
\<close>

record 'j request =
  headers :: "string \<rightharpoonup> string"
  json :: "'j option"

text \<open>What the handler ends with: \<open>new Response(body, {status})\<close>, or a throw.\<close>

datatype outcome = Response string nat | Thrown error

text \<open>
  JavaScript truthiness of a value that is a string, \<open>null\<close> or \<open>undefined\<close>: only a
  non-empty string passes \<open>!x\<close>.
\<close>

definition truthy :: "string option \<Rightarrow> string option" where
  "truthy x = (case x of None \<Rightarrow> None | Some s \<Rightarrow> if s = [] then None else Some s)"

text \<open>\<open>x || ""\<close> for such a value.\<close>

definition or_empty :: "string option \<Rightarrow> string" where
  "or_empty x = (case truthy x of None \<Rightarrow> [] | Some s \<Rightarrow> s)"

text \<open>
  \<open>String.prototype.trim\<close>, on strings read as sequences of code points below 256: the
  white space and line terminators in that range are TAB, LF, VT, FF, CR, SPACE and
  NO-BREAK SPACE.
\<close>

definition is_ws :: "char \<Rightarrow> bool" where
  "is_ws c = ((of_char c :: nat) \<in> {9, 10, 11, 12, 13, 32, 160})"

definition trim :: "string \<Rightarrow> string" where
  "trim s = rev (dropWhile is_ws (rev (dropWhile is_ws s)))"

text \<open>Steps 2 and 3 of the handler: the three svix headers, or nothing if one is missing.\<close>

definition svix_headers_of :: "'j request \<Rightarrow> svix_headers option" where
  "svix_headers_of request =
     (case (truthy (headers request ''svix-id''),
            truthy (headers request ''svix-timestamp''),
            truthy (headers request ''svix-signature'')) of
        (Some a, Some b, Some c) \<Rightarrow>
          Some \<lparr>svix_id = a, svix_timestamp = b, svix_signature = c\<rparr>
      | _ \<Rightarrow> None)"

text \<open>
  \<open>ctx.runMutation(api.users.syncUser, {clerkId, email, name, image})\<close>: the arguments
  are checked against the validators of \<open>syncUser\<close> before its handler runs. \<open>image\<close> is
  \<open>v.optional(v.string())\<close>: a missing value and a string pass, \<open>null\<close> is rejected and
  the call throws with nothing written.
\<close>

definition runMutation_syncUser ::
    "string \<Rightarrow> string \<Rightarrow> string \<Rightarrow> js_string \<Rightarrow> db \<Rightarrow> (error + id) \<times> db" where
  "runMutation_syncUser cid em nm img d =
     (case img of
        Undefined \<Rightarrow> syncUser cid em nm None d
      | Null \<Rightarrow> (Inl ArgumentValidationError, d)
      | Str s \<Rightarrow> syncUser cid em nm (Some s) d)"

text \<open>Step 8: the arguments built for \<open>syncUser\<close>, and the call through \<open>ctx.runMutation\<close>.\<close>

definition display_name :: "user_json \<Rightarrow> string" where
  "display_name u = trim (or_empty (first_name u) @ '' '' @ or_empty (last_name u))"

definition on_user_created :: "user_json \<Rightarrow> db \<Rightarrow> outcome \<times> db" where
  "on_user_created u d =
     (case email_addresses u of
        [] \<Rightarrow> (Thrown TypeError, d)
      | e # _ \<Rightarrow>
          (case runMutation_syncUser (data_id u) (email_address e) (display_name u)
                  (image_url u) d of
             (Inl err, d') \<Rightarrow> (Response ''error creating user'' 500, d')
           | (Inr result, d') \<Rightarrow> (Response ''webhook processed successfully'' 200, d')))"

text \<open>
  The handler of \<open>POST /clerk-webhook\<close>. The svix library and \<open>JSON.stringify\<close> are
  collaborators outside the repository and are parameters: \<open>new_Webhook\<close> is the
  constructor \<open>new Webhook(secret)\<close>, \<open>verify\<close> is \<open>wh.verify(body, headers)\<close>, each
  returning \<open>Inl\<close> when it throws. \<open>webhookSecret\<close> is the environment variable
  \<open>CLERK_WEBHOOK_SECRET\<close>. Only the call of \<open>verify\<close> and the call of \<open>syncUser\<close> sit in a
  \<open>try\<close> block.
\<close>

definition clerk_webhook ::
    "('j \<Rightarrow> string) \<Rightarrow> (string \<Rightarrow> error + 'w) \<Rightarrow>
     ('w \<Rightarrow> string \<Rightarrow> svix_headers \<Rightarrow> error + webhook_event) \<Rightarrow>
     string option \<Rightarrow> 'j request \<Rightarrow> db \<Rightarrow> outcome \<times> db" where
  "clerk_webhook stringify new_Webhook verify webhookSecret request d =
     (case truthy webhookSecret of
        None \<Rightarrow> (Thrown (Error ''missing clerk webhook secret environment variable''), d)
      | Some secret \<Rightarrow>
     (case svix_headers_of request of
        None \<Rightarrow> (Response ''missing svix headers'' 400, d)
      | Some hs \<Rightarrow>
     (case json request of
        None \<Rightarrow> (Thrown SyntaxError, d)
      | Some payload \<Rightarrow>
     (let body = stringify payload in
      case new_Webhook secret of
        Inl err \<Rightarrow> (Thrown err, d)
      | Inr wh \<Rightarrow>
     (case verify wh body hs of
        Inl err \<Rightarrow> (Response ''invalid svix payload'' 400, d)
      | Inr evt \<Rightarrow>
          if evt_type evt = ''user.created'' then on_user_created (evt_data evt) d
          else (Response ''webhook processed successfully'' 200, d))))))"

section \<open>Runs of the interview mutations\<close>

text \<open>
  A call of one of the two mutations that write the interviews table, with the session
  it carries and, for an update, the reading of the clock at the call.
\<close>

datatype event =
    Create "identity option" createInterview_args
  | Update "identity option" id string number

fun step :: "event \<Rightarrow> db \<Rightarrow> db" where
  "step (Create who args) d = snd (createInterview who args d)"
| "step (Update who i st now) d = snd (updateInterview who i st now d)"

definition run :: "event list \<Rightarrow> db \<Rightarrow> db" where
  "run es d = fold step es d"

text \<open>Reading a document back by its id (\<open>ctx.db.get\<close>), used to state what a call did.\<close>

definition get_interview :: "db \<Rightarrow> id \<Rightarrow> interview option" where
  "get_interview d i = find (\<lambda>x. interview_id x = i) (interviews d)"

text \<open>
  The store hands out each id once: every stored document's id is below the counter,
  and no two interviews share an id.
\<close>

definition ids_fresh :: "db \<Rightarrow> bool" where
  "ids_fresh d =
     (list_all (\<lambda>x. interview_id x < next_id d) (interviews d) \<and>
      distinct (map interview_id (interviews d)))"

section \<open>Properties and sample inputs\<close>


definition ends_after_start :: "interview \<Rightarrow> bool" where
  "ends_after_start x = (case endTime x of None \<Rightarrow> False | Some t \<Rightarrow> startTime x \<le> t)"


text \<open>Concrete inputs on which the statements below are evaluated.\<close>

definition recruiter :: identity where
  "recruiter = \<lparr>subject = ''user_r''\<rparr>"

definition sample_args :: "string \<Rightarrow> number \<Rightarrow> createInterview_args" where
  "sample_args st t0 =
     \<lparr>arg_title = ''Interview'', arg_description = None, arg_startTime = t0,
      arg_status = st, arg_streamCallId = ''call'', arg_candidateId = ''user_c'',
      arg_interviewerIds = [''user_r'', ''user_s'']\<rparr>"

definition sample_run :: "event list" where
  "sample_run =
     [Create (Some recruiter) (sample_args ''completed'' 100),
      Create (Some recruiter) (sample_args ''scheduled'' 100),
      Update (Some recruiter) 1 ''completed'' 150,
      Update (Some recruiter) 1 ''scheduled'' 160]"

definition sample_request :: "string option \<Rightarrow> string request" where
  "sample_request body =
     \<lparr>headers = [''svix-id'' \<mapsto> ''msg_1'', ''svix-timestamp'' \<mapsto> ''1700000000'',
                 ''svix-signature'' \<mapsto> ''v1,c2lnbmF0dXJl''],
      json = body\<rparr>"

definition ann_created :: webhook_event where
  "ann_created =
     \<lparr>evt_type = ''user.created'',
      evt_data = \<lparr>data_id = ''u_1'', email_addresses = [\<lparr>email_address = ''a@b.com''\<rparr>],
                  first_name = Some ''Ann'', last_name = None, image_url = Undefined\<rparr>\<rparr>"

section \<open>The user directory\<close>



lemma find_app:
  "find P (xs @ ys) = (case find P xs of None \<Rightarrow> find P ys | Some x \<Rightarrow> Some x)"
  by (induction xs) auto



lemma syncUser_keeps_distinct:
  "distinct (map clerkId (users d)) \<Longrightarrow>
   distinct (map clerkId (users (snd (syncUser cid em nm img d))))"
  by (auto simp: syncUser_def Let_def find_None_iff split: option.splits)

lemma users_untouched:
  "users (snd (createInterview who args d)) = users d"
  "users (snd (updateInterview who i st now d)) = users d"
  "users (snd (addComment who iid txt r d)) = users d"
  by (cases who; simp add: createInterview_def updateInterview_def addComment_def Let_def)+

lemma distinct_at_most_one:
  "distinct (map clerkId us) \<Longrightarrow> length (filter (\<lambda>u. clerkId u = cid) us) \<le> 1"
  by (induction us) (auto simp: filter_empty_conv image_iff)


section \<open>Protected operations without a session\<close>

text \<open>
  Claim C4. Each of \<open>getUsers\<close>, \<open>getAllInterviews\<close>, \<open>getMyInterviews\<close>,
  \<open>createInterview\<close>, \<open>updateInterviewStatus\<close> and \<open>addComment\<close>, called without a
  valid session, throws an Unauthorized error and leaves the database as it was.
\<close>

theorem unauthorized_no_mutation:
  "getUsers None d = (Inl (Error ''Unauthorized, user is not authenticated''), d) \<and>
   getAllInterviews None d = (Inl (Error ''Unauthorized''), d) \<and>
   getMyInterviews None d = (Inl (Error ''Unauthorized''), d) \<and>
   createInterview None args d = (Inl (Error ''Unauthorized''), d) \<and>
   updateInterview None i st now d = (Inl (Error ''Unauthorized''), d) \<and>
   addComment None iid txt r d = (Inl (Error ''Unauthorized''), d)"
  by (simp add: getUsers_def getAllInterviews_def getMyInterviews_def createInterview_def
      updateInterview_def addComment_def)

theorem unauthorized_no_mutation_witness:
  "getUsers None empty_db =
     (Inl (Error ''Unauthorized, user is not authenticated''), empty_db) \<and>
   getAllInterviews None empty_db = (Inl (Error ''Unauthorized''), empty_db) \<and>
   getMyInterviews None empty_db = (Inl (Error ''Unauthorized''), empty_db) \<and>
   createInterview None (sample_args ''scheduled'' 100) empty_db =
     (Inl (Error ''Unauthorized''), empty_db) \<and>
   updateInterview None 0 ''completed'' 5 empty_db = (Inl (Error ''Unauthorized''), empty_db) \<and>
   addComment None 0 ''hi'' 9 empty_db = (Inl (Error ''Unauthorized''), empty_db)"
  using unauthorized_no_mutation [of empty_db "sample_args ''scheduled'' 100" 0
      "''completed''" 5 0 "''hi''" 9]
  by simp

section \<open>Interviews of the caller\<close>

text \<open>
  Claim C5. For a caller with a valid session, \<open>getMyInterviews\<close> returns exactly the
  stored interviews whose \<open>candidateId\<close> is the caller's identity, whatever else is stored.
\<close>

theorem getMyInterviews_exact:
  "\<exists>xs. getMyInterviews (Some who) d = (Inr xs, d) \<and>
        set xs = {x \<in> set (interviews d). candidateId x = subject who}"
  by (simp add: getMyInterviews_def)

theorem getMyInterviews_exact_witness:
  "getMyInterviews (Some \<lparr>subject = ''user_c''\<rparr>)
     (run [Create (Some recruiter) ((sample_args ''scheduled'' 100)\<lparr>arg_candidateId := ''user_d''\<rparr>),
           Create (Some recruiter) (sample_args ''scheduled'' 200)] empty_db) =
   (Inr [\<lparr>interview_id = 1, title = ''Interview'', description = None, startTime = 200,
          endTime = None, status = ''scheduled'', streamCallId = ''call'',
          candidateId = ''user_c'', interviewerIds = ''user_r,user_s''\<rparr>],
    run [Create (Some recruiter) ((sample_args ''scheduled'' 100)\<lparr>arg_candidateId := ''user_d''\<rparr>),
         Create (Some recruiter) (sample_args ''scheduled'' 200)] empty_db)"
  using getMyInterviews_exact [of "\<lparr>subject = ''user_c''\<rparr>"
     "run [Create (Some recruiter) ((sample_args ''scheduled'' 100)\<lparr>arg_candidateId := ''user_d''\<rparr>),
           Create (Some recruiter) (sample_args ''scheduled'' 200)] empty_db"]
  by (simp add: getMyInterviews_def run_def sample_args_def recruiter_def empty_db_def
      createInterview_def)

section \<open>Comments\<close>

text \<open>
  Claim C9. An authenticated \<open>addComment\<close> inserts one comment whose \<open>interviewerId\<close> is
  the caller's verified \<open>subject\<close>, whatever the client sent, and stores the rating it
  was given, whatever number that is.
\<close>

theorem addComment_interviewer:
  "\<exists>c d'. addComment (Some who) iid txt r d = (Inr (comment_id c), d') \<and>
        comments d' = comments d @ [c] \<and> users d' = users d \<and>
        interviews d' = interviews d \<and>
        interviewerId c = subject who \<and> rating c = r \<and> content c = txt \<and>
        interviewId c = iid"
proof -
  let ?c = "\<lparr>comment_id = next_id d, content = txt, rating = r,
             interviewerId = subject who, interviewId = iid\<rparr>"
  let ?d' = "d\<lparr>comments := comments d @ [?c], next_id := Suc (next_id d)\<rparr>"
  have "addComment (Some who) iid txt r d = (Inr (comment_id ?c), ?d')"
    by (simp add: addComment_def Let_def)
  moreover have "comments ?d' = comments d @ [?c]" "users ?d' = users d"
    "interviews ?d' = interviews d" by simp_all
  moreover have "interviewerId ?c = subject who" "rating ?c = r" "content ?c = txt"
    "interviewId ?c = iid" by simp_all
  ultimately show ?thesis by blast
qed

theorem addComment_interviewer_witness:
  "addComment (Some \<lparr>subject = ''user_r''\<rparr>) 7 ''ok'' (-3) empty_db =
     (Inr 0, \<lparr>users = [], interviews = [],
               comments = [\<lparr>comment_id = 0, content = ''ok'', rating = -3,
                            interviewerId = ''user_r'', interviewId = 7\<rparr>],
               next_id = 1\<rparr>)"
  using addComment_interviewer [of "\<lparr>subject = ''user_r''\<rparr>" 7 "''ok''" "-3" empty_db]
  by (simp add: addComment_def empty_db_def)

section \<open>Reading and patching interviews\<close>

lemma updateInterview_found:
  "get_interview d i = Some x \<Longrightarrow>
   updateInterview (Some who) i st now d =
     (Inr (), d\<lparr>interviews :=
                 map (\<lambda>x. if interview_id x = i then patch_status st now x else x)
                   (interviews d)\<rparr>)"
  by (auto simp: updateInterview_def get_interview_def find_Some_iff)

lemma interview_id_patch [simp]: "interview_id (patch_status st now x) = interview_id x"
  by (simp add: patch_status_def)

lemma find_map_patch:
  "find (\<lambda>x. interview_id x = j)
     (map (\<lambda>x. if interview_id x = i then patch_status st now x else x) xs) =
   (if j = i then map_option (patch_status st now) (find (\<lambda>x. interview_id x = i) xs)
    else find (\<lambda>x. interview_id x = j) xs)"
  by (induction xs) auto

lemma get_interview_update:
  "get_interview (snd (updateInterview who i st now d)) j =
     (if who \<noteq> None \<and> j = i then map_option (patch_status st now) (get_interview d i)
      else get_interview d j)"
proof (cases who)
  case None
  then show ?thesis by (simp add: updateInterview_def)
next
  case (Some w)
  show ?thesis
  proof (cases "\<exists>x \<in> set (interviews d). interview_id x = i")
    case True
    then show ?thesis using Some
      by (simp add: updateInterview_def get_interview_def find_map_patch)
  next
    case False
    then have "get_interview d i = None"
      by (auto simp: get_interview_def find_None_iff)
    with False Some show ?thesis by (simp add: updateInterview_def)
  qed
qed

lemma get_interview_create_old:
  "get_interview d j = Some x \<Longrightarrow> get_interview (snd (createInterview who args d)) j = Some x"
  by (cases who) (simp_all add: createInterview_def get_interview_def Let_def find_app)

lemma get_interview_create_new:
  assumes "ids_fresh d"
  shows "get_interview (snd (createInterview (Some who) args d)) (next_id d) =
     Some \<lparr>interview_id = next_id d, title = arg_title args,
            description = arg_description args, startTime = arg_startTime args,
            endTime = None, status = arg_status args,
            streamCallId = arg_streamCallId args, candidateId = arg_candidateId args,
            interviewerIds = join '','' (arg_interviewerIds args)\<rparr>"
proof -
  have "find (\<lambda>x. interview_id x = next_id d) (interviews d) = None"
    using assms by (auto simp: ids_fresh_def find_None_iff list_all_iff)
  then show ?thesis
    by (simp add: createInterview_def get_interview_def Let_def find_app)
qed

text \<open>Every mutation of the interviews table keeps the ids fresh.\<close>

lemma ids_fresh_empty: "ids_fresh empty_db"
  by (simp add: ids_fresh_def empty_db_def)

lemma ids_fresh_create: "ids_fresh d \<Longrightarrow> ids_fresh (snd (createInterview who args d))"
  by (cases who) (auto simp: createInterview_def ids_fresh_def Let_def list_all_iff)

lemma map_id_patch:
  "map interview_id (map (\<lambda>x. if interview_id x = i then patch_status st now x else x) xs) =
   map interview_id xs"
  by (induction xs) auto

lemma ids_fresh_update: "ids_fresh d \<Longrightarrow> ids_fresh (snd (updateInterview who i st now d))"
  by (cases who) (auto simp: updateInterview_def ids_fresh_def list_all_iff map_id_patch
      simp del: map_map)

lemma ids_fresh_step: "ids_fresh d \<Longrightarrow> ids_fresh (step e d)"
  by (cases e) (simp_all add: ids_fresh_create ids_fresh_update)

lemma run_Nil [simp]: "run [] d = d"
  by (simp add: run_def)

lemma run_Cons [simp]: "run (e # es) d = run es (step e d)"
  by (simp add: run_def)

lemma ids_fresh_run: "ids_fresh d \<Longrightarrow> ids_fresh (run es d)"
  by (induction es arbitrary: d) (simp_all add: ids_fresh_step)

lemma startTime_patch [simp]: "startTime (patch_status st now x) = startTime x"
  by (simp add: patch_status_def)

lemma step_keeps_startTime:
  assumes "get_interview d i = Some x"
  shows "\<exists>y. get_interview (step e d) i = Some y \<and> startTime y = startTime x"
proof (cases e)
  case (Create who args)
  then show ?thesis using assms by (simp add: get_interview_create_old)
next
  case (Update who j st now)
  then show ?thesis using assms by (auto simp: get_interview_update)
qed

lemma run_keeps_startTime:
  "get_interview d i = Some x \<Longrightarrow>
   \<exists>y. get_interview (run es d) i = Some y \<and> startTime y = startTime x"
proof (induction es arbitrary: d x)
  case Nil
  then show ?case by simp
next
  case (Cons e es)
  from step_keeps_startTime [OF Cons.prems, of e] obtain y where
    y: "get_interview (step e d) i = Some y" "startTime y = startTime x" by blast
  from Cons.IH [OF y(1)] y(2) show ?case by simp
qed

section \<open>The frame of a status update\<close>

text \<open>
  Claim C10. An authenticated \<open>updateInterviewStatus(id, status)\<close> on a stored interview
  leaves its title, description, startTime, streamCallId, candidateId and interviewerIds
  as they were, and when the new status is not \<open>"completed"\<close> its endTime too, so an
  endTime set earlier is not cleared; every other interview, the users and the comments
  are untouched. On an id with no document the call throws and changes nothing.
\<close>

theorem updateInterview_frame:
  "case get_interview d i of
     None \<Rightarrow> updateInterview (Some who) i st now d = (Inl DocumentNotFound, d)
   | Some x \<Rightarrow>
       (\<exists>d' y. updateInterview (Some who) i st now d = (Inr (), d') \<and>
           get_interview d' i = Some y \<and> status y = st \<and>
           interview_id y = interview_id x \<and> title y = title x \<and>
           description y = description x \<and> startTime y = startTime x \<and>
           streamCallId y = streamCallId x \<and> candidateId y = candidateId x \<and>
           interviewerIds y = interviewerIds x \<and>
           (st \<noteq> ''completed'' \<longrightarrow> endTime y = endTime x) \<and>
           (\<forall>j. j \<noteq> i \<longrightarrow> get_interview d' j = get_interview d j) \<and>
           users d' = users d \<and> comments d' = comments d)"
proof (cases "get_interview d i")
  case None
  then have "\<not> (\<exists>x \<in> set (interviews d). interview_id x = i)"
    by (simp add: get_interview_def find_None_iff)
  with None show ?thesis by (simp add: updateInterview_def)
next
  case (Some x)
  let ?d' = "d\<lparr>interviews :=
                 map (\<lambda>x. if interview_id x = i then patch_status st now x else x)
                   (interviews d)\<rparr>"
  have upd: "updateInterview (Some who) i st now d = (Inr (), ?d')"
    using Some by (rule updateInterview_found)
  then have d': "snd (updateInterview (Some who) i st now d) = ?d'" by simp
  have get: "get_interview ?d' j =
      (if j = i then map_option (patch_status st now) (get_interview d i)
       else get_interview d j)" for j
    using get_interview_update [of "Some who" i st now d j] by (simp only: d') simp
  have y: "get_interview ?d' i = Some (patch_status st now x)"
    using Some by (simp add: get)
  have others: "\<forall>j. j \<noteq> i \<longrightarrow> get_interview ?d' j = get_interview d j"
    by (simp add: get)
  have fields: "status (patch_status st now x) = st"
    "interview_id (patch_status st now x) = interview_id x"
    "title (patch_status st now x) = title x"
    "description (patch_status st now x) = description x"
    "startTime (patch_status st now x) = startTime x"
    "streamCallId (patch_status st now x) = streamCallId x"
    "candidateId (patch_status st now x) = candidateId x"
    "interviewerIds (patch_status st now x) = interviewerIds x"
    "st \<noteq> ''completed'' \<longrightarrow> endTime (patch_status st now x) = endTime x"
    by (simp_all add: patch_status_def)
  have rest: "users ?d' = users d" "comments ?d' = comments d" by simp_all
  from upd y others fields rest have
    "\<exists>d' y. updateInterview (Some who) i st now d = (Inr (), d') \<and>
           get_interview d' i = Some y \<and> status y = st \<and>
           interview_id y = interview_id x \<and> title y = title x \<and>
           description y = description x \<and> startTime y = startTime x \<and>
           streamCallId y = streamCallId x \<and> candidateId y = candidateId x \<and>
           interviewerIds y = interviewerIds x \<and>
           (st \<noteq> ''completed'' \<longrightarrow> endTime y = endTime x) \<and>
           (\<forall>j. j \<noteq> i \<longrightarrow> get_interview d' j = get_interview d j) \<and>
           users d' = users d \<and> comments d' = comments d"
    by blast
  with Some show ?thesis by simp
qed

theorem updateInterview_frame_witness:
  "get_interview (run (take 3 sample_run) empty_db) 1 =
     Some \<lparr>interview_id = 1, title = ''Interview'', description = None, startTime = 100,
            endTime = Some 150, status = ''completed'', streamCallId = ''call'',
            candidateId = ''user_c'', interviewerIds = ''user_r,user_s''\<rparr> \<and>
   get_interview (snd (updateInterview (Some recruiter) 1 ''scheduled'' 160
      (run (take 3 sample_run) empty_db))) 1 =
     Some \<lparr>interview_id = 1, title = ''Interview'', description = None, startTime = 100,
            endTime = Some 150, status = ''scheduled'', streamCallId = ''call'',
            candidateId = ''user_c'', interviewerIds = ''user_r,user_s''\<rparr>"
  using updateInterview_frame [where d = "run (take 3 sample_run) empty_db" and i = 1
      and who = recruiter and st = "''scheduled''" and now = 160]
  by (simp add: sample_run_def sample_args_def recruiter_def empty_db_def
      createInterview_def updateInterview_def get_interview_def patch_status_def)

section \<open>End time after completion\<close>

text \<open>
  Claim C3, as the code has it. An interview is created without \<open>endTime\<close>, whatever its
  status; after any further creations and status updates, an authenticated
  \<open>updateInterviewStatus(id, "completed")\<close> leaves it with \<open>endTime\<close> set to the reading
  of the clock at that call and \<open>startTime\<close> as created. So the end time is at or after
  the start time exactly when the call is made at or after the start time.
\<close>

theorem completed_endTime_is_clock:
  assumes "ids_fresh d"
  shows "\<exists>i d1 x. createInterview (Some who) args d = (Inr i, d1) \<and>
           get_interview d1 i = Some x \<and> endTime x = None \<and>
           startTime x = arg_startTime args \<and> status x = arg_status args \<and>
           (\<exists>d2 y. updateInterview (Some who') i ''completed'' now (run es d1) = (Inr (), d2) \<and>
              get_interview d2 i = Some y \<and> status y = ''completed'' \<and>
              endTime y = Some now \<and> startTime y = arg_startTime args \<and>
              (ends_after_start y \<longleftrightarrow> arg_startTime args \<le> now))"
proof -
  let ?i = "next_id d"
  let ?d1 = "snd (createInterview (Some who) args d)"
  let ?x = "\<lparr>interview_id = next_id d, title = arg_title args,
            description = arg_description args, startTime = arg_startTime args,
            endTime = None, status = arg_status args,
            streamCallId = arg_streamCallId args, candidateId = arg_candidateId args,
            interviewerIds = join '','' (arg_interviewerIds args)\<rparr>"
  have c: "createInterview (Some who) args d = (Inr ?i, ?d1)"
    by (simp add: createInterview_def Let_def)
  have x: "get_interview ?d1 ?i = Some ?x"
    using assms by (rule get_interview_create_new)
  from run_keeps_startTime [OF x, of es] obtain z where
    z: "get_interview (run es ?d1) ?i = Some z" "startTime z = arg_startTime args"
    by auto
  let ?d2 = "snd (updateInterview (Some who') ?i ''completed'' now (run es ?d1))"
  let ?y = "patch_status ''completed'' now z"
  have u: "updateInterview (Some who') ?i ''completed'' now (run es ?d1) = (Inr (), ?d2)"
    using updateInterview_found [OF z(1)] by simp
  have y: "get_interview ?d2 ?i = Some ?y"
    using z(1) by (simp add: get_interview_update)
  have yf: "status ?y = ''completed''" "endTime ?y = Some now"
    "startTime ?y = arg_startTime args"
    using z(2) by (simp_all add: patch_status_def)
  then have ye: "ends_after_start ?y \<longleftrightarrow> arg_startTime args \<le> now"
    by (simp add: ends_after_start_def)
  have xf: "endTime ?x = None" "startTime ?x = arg_startTime args"
    "status ?x = arg_status args" by simp_all
  from u y yf ye have
    "\<exists>d2 y. updateInterview (Some who') ?i ''completed'' now (run es ?d1) = (Inr (), d2) \<and>
              get_interview d2 ?i = Some y \<and> status y = ''completed'' \<and>
              endTime y = Some now \<and> startTime y = arg_startTime args \<and>
              (ends_after_start y \<longleftrightarrow> arg_startTime args \<le> now)"
    by blast
  with c x xf show ?thesis by blast
qed

theorem completed_endTime_is_clock_witness:
  "ids_fresh empty_db \<and>
   get_interview
     (snd (updateInterview (Some recruiter) 0 ''completed'' 200
        (run [Update (Some recruiter) 0 ''in-progress'' 120]
           (snd (createInterview (Some recruiter) (sample_args ''scheduled'' 100) empty_db))))) 0 =
     Some \<lparr>interview_id = 0, title = ''Interview'', description = None, startTime = 100,
            endTime = Some 200, status = ''completed'', streamCallId = ''call'',
            candidateId = ''user_c'', interviewerIds = ''user_r,user_s''\<rparr>"
  using completed_endTime_is_clock [OF ids_fresh_empty, of recruiter
      "sample_args ''scheduled'' 100" recruiter 200 "[Update (Some recruiter) 0 ''in-progress'' 120]"]
  by (simp add: sample_args_def recruiter_def empty_db_def ids_fresh_def
      createInterview_def updateInterview_def get_interview_def patch_status_def)

text \<open>
  Claim C3 as stated fails: an interview scheduled for instant 100 and marked completed
  at instant 50 has an end time before its start time.
\<close>

theorem completed_before_start_counterexample:
  "createInterview (Some recruiter) (sample_args ''scheduled'' 100) empty_db =
     (Inr 0, run [Create (Some recruiter) (sample_args ''scheduled'' 100)] empty_db) \<and>
   get_interview
     (snd (updateInterview (Some recruiter) 0 ''completed'' 50
        (run [Create (Some recruiter) (sample_args ''scheduled'' 100)] empty_db))) 0 =
     Some \<lparr>interview_id = 0, title = ''Interview'', description = None, startTime = 100,
            endTime = Some 50, status = ''completed'', streamCallId = ''call'',
            candidateId = ''user_c'', interviewerIds = ''user_r,user_s''\<rparr> \<and>
   \<not> ends_after_start
      \<lparr>interview_id = 0, title = ''Interview'', description = None, startTime = 100,
            endTime = Some 50, status = ''completed'', streamCallId = ''call'',
            candidateId = ''user_c'', interviewerIds = ''user_r,user_s''\<rparr>"
  by (simp add: sample_args_def recruiter_def empty_db_def ends_after_start_def
      createInterview_def updateInterview_def get_interview_def patch_status_def)

section \<open>Where an end time comes from\<close>










section \<open>The webhook handler\<close>

text \<open>
  Claim C7. When the verified event is \<open>user.created\<close> and its list of email addresses is
  empty, the handler throws on reading the first entry: it returns no response, and no
  guard stands before the read. Nothing is stored.
\<close>

theorem empty_email_list_faults:
  assumes "truthy webhookSecret = Some secret" and "svix_headers_of request = Some hs"
    and "json request = Some payload" and "new_Webhook secret = Inr wh"
    and "verify wh (stringify payload) hs = Inr evt"
    and "evt_type evt = ''user.created''" and "email_addresses (evt_data evt) = []"
  shows "clerk_webhook stringify new_Webhook verify webhookSecret request d =
     (Thrown TypeError, d)"
  using assms by (simp add: clerk_webhook_def on_user_created_def)

theorem empty_email_list_faults_witness:
  "clerk_webhook (\<lambda>p. p) (\<lambda>s. Inr s)
     (\<lambda>wh body hs. Inr \<lparr>evt_type = ''user.created'',
        evt_data = \<lparr>data_id = ''u_1'', email_addresses = [], first_name = Some ''Ann'',
                    last_name = None, image_url = Undefined\<rparr>\<rparr>)
     (Some ''whsec_c2VjcmV0'') (sample_request (Some ''{}'')) empty_db =
   (Thrown TypeError, empty_db)"
  using empty_email_list_faults [of "Some ''whsec_c2VjcmV0''" "''whsec_c2VjcmV0''"
      "sample_request (Some ''{}'')"
      "\<lparr>svix_id = ''msg_1'', svix_timestamp = ''1700000000'', svix_signature = ''v1,c2lnbmF0dXJl''\<rparr>"
      "''{}''" "\<lambda>s. Inr s" "''whsec_c2VjcmV0''"
      "\<lambda>wh body hs. Inr \<lparr>evt_type = ''user.created'',
        evt_data = \<lparr>data_id = ''u_1'', email_addresses = [], first_name = Some ''Ann'',
                    last_name = None, image_url = Undefined\<rparr>\<rparr>" "\<lambda>p. p" _ empty_db]
  by (simp add: truthy_def svix_headers_of_def sample_request_def)

text \<open>
  A payload whose \<open>image_url\<close> is \<open>null\<close> fails the validator of \<open>syncUser\<close>: the handler
  catches the throw and answers 500, and nothing is stored.
\<close>

lemma null_image_answers_500:
  assumes "email_addresses u = e # es" and "image_url u = Null"
  shows "on_user_created u d = (Response ''error creating user'' 500, d)"
  using assms by (simp add: on_user_created_def runMutation_syncUser_def)

text \<open>
  Claim C8. A verified \<open>user.created\<close> event with id \<open>u_1\<close>, the one email address
  \<open>a@b.com\<close>, first name \<open>Ann\<close> and no last name, its \<open>image_url\<close> missing as in the
  scenario or any string, arriving when no user \<open>u_1\<close> is stored, is answered with 200
  and adds exactly one user record, with clerkId \<open>u_1\<close>, email \<open>a@b.com\<close>, name \<open>Ann\<close> and
  role candidate; the same request again is answered with 200 and leaves the store as it
  is.
\<close>

theorem user_created_scenario:
  assumes "truthy webhookSecret = Some secret" and "svix_headers_of request = Some hs"
    and "json request = Some payload" and "new_Webhook secret = Inr wh"
    and "verify wh (stringify payload) hs =
           Inr \<lparr>evt_type = ''user.created'',
                evt_data = \<lparr>data_id = ''u_1'',
                            email_addresses = [\<lparr>email_address = ''a@b.com''\<rparr>],
                            first_name = Some ''Ann'', last_name = None, image_url = img\<rparr>\<rparr>"
    and "img \<noteq> Null"
    and "getUserByClerkId ''u_1'' d = None"
  shows "\<exists>uid d1.
      clerk_webhook stringify new_Webhook verify webhookSecret request d =
        (Response ''webhook processed successfully'' 200, d1) \<and>
      users d1 = users d @
        [\<lparr>user_id = uid, clerkId = ''u_1'', name = ''Ann'', email = ''a@b.com'',
          image = (case img of Str s \<Rightarrow> Some s | _ \<Rightarrow> None), role = Candidate\<rparr>] \<and>
      clerk_webhook stringify new_Webhook verify webhookSecret request d1 =
        (Response ''webhook processed successfully'' 200, d1)"
proof -
  let ?u = "\<lparr>data_id = ''u_1'', email_addresses = [\<lparr>email_address = ''a@b.com''\<rparr>],
            first_name = Some ''Ann'', last_name = None, image_url = img\<rparr>"
  let ?im = "case img of Str s \<Rightarrow> Some s | _ \<Rightarrow> None"
  let ?rec = "\<lparr>user_id = next_id d, clerkId = ''u_1'', name = ''Ann'', email = ''a@b.com'',
          image = ?im, role = Candidate\<rparr>"
  let ?d1 = "d\<lparr>users := users d @ [?rec], next_id := Suc (next_id d)\<rparr>"
  have nm: "display_name ?u = ''Ann''"
    by (simp add: display_name_def or_empty_def truthy_def trim_def is_ws_def)
  have call: "runMutation_syncUser ''u_1'' ''a@b.com'' ''Ann'' img d' =
      syncUser ''u_1'' ''a@b.com'' ''Ann'' ?im d'" for d'
    using assms(6) by (cases img) (simp_all add: runMutation_syncUser_def)
  have hook: "clerk_webhook stringify new_Webhook verify webhookSecret request d' =
      on_user_created ?u d'" for d'
    using assms(1-5) by (simp add: clerk_webhook_def)
  have first: "on_user_created ?u d = (Response ''webhook processed successfully'' 200, ?d1)"
    using assms(7)
    by (simp add: on_user_created_def nm call syncUser_def getUserByClerkId_def Let_def)
  have "find (\<lambda>u. clerkId u = ''u_1'') (users ?d1) = Some ?rec"
    using assms(7) by (simp add: find_app getUserByClerkId_def)
  then have again: "on_user_created ?u ?d1 = (Response ''webhook processed successfully'' 200, ?d1)"
    by (simp add: on_user_created_def nm call syncUser_def)
  have "users ?d1 = users d @ [?rec]" by simp
  with first again hook show ?thesis by metis
qed

theorem user_created_scenario_witness:
  "getUserByClerkId ''u_1'' empty_db = None \<and>
   clerk_webhook (\<lambda>p. p) (\<lambda>s. Inr s) (\<lambda>wh body hs. Inr ann_created)
     (Some ''whsec_c2VjcmV0'') (sample_request (Some ''{}'')) empty_db =
   (Response ''webhook processed successfully'' 200,
    \<lparr>users = [\<lparr>user_id = 0, clerkId = ''u_1'', name = ''Ann'', email = ''a@b.com'',
                image = None, role = Candidate\<rparr>],
     interviews = [], comments = [], next_id = 1\<rparr>) \<and>
   clerk_webhook (\<lambda>p. p) (\<lambda>s. Inr s) (\<lambda>wh body hs. Inr ann_created)
     (Some ''whsec_c2VjcmV0'') (sample_request (Some ''{}''))
     \<lparr>users = [\<lparr>user_id = 0, clerkId = ''u_1'', name = ''Ann'', email = ''a@b.com'',
                image = None, role = Candidate\<rparr>],
      interviews = [], comments = [], next_id = 1\<rparr> =
   (Response ''webhook processed successfully'' 200,
    \<lparr>users = [\<lparr>user_id = 0, clerkId = ''u_1'', name = ''Ann'', email = ''a@b.com'',
                image = None, role = Candidate\<rparr>],
     interviews = [], comments = [], next_id = 1\<rparr>)"
  using user_created_scenario [of "Some ''whsec_c2VjcmV0''" "''whsec_c2VjcmV0''"
      "sample_request (Some ''{}'')"
      "\<lparr>svix_id = ''msg_1'', svix_timestamp = ''1700000000'',
        svix_signature = ''v1,c2lnbmF0dXJl''\<rparr>"
      "''{}''" "\<lambda>s. Inr s" "''whsec_c2VjcmV0''"
      "\<lambda>wh body hs. Inr ann_created" "\<lambda>p. p" Undefined empty_db]
  by (simp add: truthy_def svix_headers_of_def sample_request_def ann_created_def
      getUserByClerkId_def empty_db_def clerk_webhook_def on_user_created_def
      display_name_def or_empty_def trim_def is_ws_def runMutation_syncUser_def syncUser_def)

text \<open>
  Claim C6, as the code has it. With the secret present, a request whose signature does
  not verify never changes the store. It is answered with 400 when a svix header is
  missing, or when its body is JSON and \<open>new Webhook(secret)\<close> succeeds. When all three
  headers are there, the handler throws instead, returning no response, if the body is
  not JSON (on parsing it, before any verification) or if \<open>new Webhook(secret)\<close> throws.
\<close>

theorem bad_signature_rejected:
  assumes "truthy webhookSecret = Some secret"
    and "\<And>hs payload wh. svix_headers_of request = Some hs \<Longrightarrow> json request = Some payload \<Longrightarrow>
           new_Webhook secret = Inr wh \<Longrightarrow> \<exists>err. verify wh (stringify payload) hs = Inl err"
  shows "snd (clerk_webhook stringify new_Webhook verify webhookSecret request d) = d \<and>
     (svix_headers_of request = None \<or>
      (json request \<noteq> None \<and> (\<exists>wh. new_Webhook secret = Inr wh)) \<longrightarrow>
        (\<exists>msg. fst (clerk_webhook stringify new_Webhook verify webhookSecret request d) =
           Response msg 400)) \<and>
     (svix_headers_of request \<noteq> None \<and> json request = None \<longrightarrow>
        fst (clerk_webhook stringify new_Webhook verify webhookSecret request d) =
           Thrown SyntaxError) \<and>
     (svix_headers_of request \<noteq> None \<and> json request \<noteq> None \<longrightarrow>
        (\<forall>err. new_Webhook secret = Inl err \<longrightarrow>
           fst (clerk_webhook stringify new_Webhook verify webhookSecret request d) =
             Thrown err))"
proof (cases "svix_headers_of request")
  case None
  then show ?thesis using assms(1) by (simp add: clerk_webhook_def)
next
  case hs: (Some hs)
  show ?thesis
  proof (cases "json request")
    case None
    then show ?thesis using assms(1) hs by (simp add: clerk_webhook_def)
  next
    case (Some payload)
    show ?thesis
    proof (cases "new_Webhook secret")
      case (Inl err)
      then show ?thesis using assms(1) hs Some by (simp add: clerk_webhook_def)
    next
      case (Inr wh)
      from assms(2) [OF hs Some Inr] obtain err where
        "verify wh (stringify payload) hs = Inl err" ..
      then show ?thesis using assms(1) hs Some Inr by (simp add: clerk_webhook_def)
    qed
  qed
qed

theorem bad_signature_rejected_witness:
  "clerk_webhook (\<lambda>p. p) (\<lambda>s. Inr s)
     (\<lambda>wh body hs. Inl (Error ''No matching signature found''))
     (Some ''whsec_c2VjcmV0'') (sample_request (Some ''{}'')) empty_db =
   (Response ''invalid svix payload'' 400, empty_db)"
  using bad_signature_rejected [of "Some ''whsec_c2VjcmV0''" "''whsec_c2VjcmV0''"
      "sample_request (Some ''{}'')" "\<lambda>s. Inr s"
      "\<lambda>wh body hs. Inl (Error ''No matching signature found'')" "\<lambda>p. p" empty_db]
  by (simp add: clerk_webhook_def truthy_def svix_headers_of_def sample_request_def)

text \<open>
  Claim C6 as stated fails: a request carrying all three headers, a signature that no
  body verifies against, and a body that is not JSON gets no 400 response; the handler
  throws. So does a request with a JSON body when the secret is present but the svix
  constructor rejects it.
\<close>

theorem bad_signature_counterexample:
  "svix_headers_of (sample_request None) =
     Some \<lparr>svix_id = ''msg_1'', svix_timestamp = ''1700000000'',
           svix_signature = ''v1,c2lnbmF0dXJl''\<rparr> \<and>
   clerk_webhook (\<lambda>p. p) (\<lambda>s. Inr s)
     (\<lambda>wh body hs. Inl (Error ''No matching signature found''))
     (Some ''whsec_c2VjcmV0'') (sample_request None) empty_db =
   (Thrown SyntaxError, empty_db) \<and>
   clerk_webhook (\<lambda>p. p) (\<lambda>s. Inl (Error ''Base64Coder: incorrect characters for decoding'') :: error + string)
     (\<lambda>wh body hs. Inl (Error ''No matching signature found''))
     (Some ''not base64!'') (sample_request (Some ''{}'')) empty_db =
   (Thrown (Error ''Base64Coder: incorrect characters for decoding''), empty_db)"
  by (simp add: clerk_webhook_def truthy_def svix_headers_of_def sample_request_def)

end
